theory Spec2Isabelle
  imports Main
begin

section \<open>The gateway schema of agora: the request AST\<close>

text \<open>
  The resolvers of \<^verbatim>\<open>makeGatewaySchema\<close> (the third document of
  \<^verbatim>\<open>src/src/components/PageHeader.tsx\<close>, the backend's schema module) work on
  the abstract syntax of GraphQL requests. The node types below are the ones of graphql-js
  that the resolvers read: a field node has an optional alias, a name, arguments,
  directives and an optional selection set (\<^verbatim>\<open>selectionSet?: SelectionSetNode\<close>,
  absent on a leaf field); a selection is a field, a fragment spread or an inline
  fragment. Source locations are left out.
\<close>

datatype ValueNode =
    IntValue int
  | StringValue string
  | EnumValue string
  | Variable string

type_synonym ArgumentNode = "string \<times> ValueNode"

type_synonym DirectiveNode = "string \<times> ArgumentNode list"

datatype FieldNode =
    FieldNode (alias_name: "string option") (name: string) (arguments: "ArgumentNode list")
      (directives: "DirectiveNode list") (selectionSet: "SelectionNode list option")
and SelectionNode =
    Field FieldNode
  | FragmentSpread string "DirectiveNode list"
  | InlineFragment "string option" "DirectiveNode list" "SelectionNode list"

text \<open>\<^verbatim>\<open>node.kind\<close>, the constants of graphql-js's \<^verbatim>\<open>Kind\<close>.\<close>

fun kind :: "SelectionNode \<Rightarrow> string" where
  "kind (Field f) = ''Field''"
| "kind (FragmentSpread n ds) = ''FragmentSpread''"
| "kind (InlineFragment t ds ss) = ''InlineFragment''"

datatype OperationTypeNode = QUERY | MUTATION | SUBSCRIPTION

datatype DefinitionNode =
    OperationDefinition OperationTypeNode "string option" "SelectionNode list"
  | FragmentDefinition string string "SelectionNode list"

type_synonym DocumentNode = "DefinitionNode list"

text \<open>
  The part of \<^verbatim>\<open>GraphQLResolveInfo\<close> that \<^verbatim>\<open>wrappedDelegates\<close> reads:
  the name of the field being resolved and the field nodes of the request that select it.
\<close>

record GraphQLResolveInfo =
  fieldName :: string
  fieldNodes :: "FieldNode list"

section \<open>Errors\<close>

text \<open>
  Every way a resolver can throw. \<^verbatim>\<open>TypeError\<close> is what JavaScript raises when a
  property of \<^verbatim>\<open>undefined\<close> or \<^verbatim>\<open>null\<close> is read; \<^verbatim>\<open>AggregateError\<close> is the
  class of \<^verbatim>\<open>@graphql-tools/utils\<close>, built from a list of errors and a message;
  \<^verbatim>\<open>ValidationError\<close> stands for whatever \<^verbatim>\<open>validateForm\<close> throws.
\<close>

record GraphQLError =
  message :: string

datatype error =
    TypeError
  | AggregateError "GraphQLError list" string
  | ValidationError string

section \<open>The selection-set extractor\<close>

text \<open>
  \<^verbatim>\<open>getSelectionSetFromDelegateField\<close> (lines 399-422). \<^verbatim>\<open>Array.prototype.find\<close>
  is \<^const>\<open>find\<close>; \<^verbatim>\<open>flatMap\<close> is \<^const>\<open>concat\<close> after \<^const>\<open>map\<close>, and the
  destructuring \<^verbatim>\<open>const [delegateFieldNode] = ...\<close> takes the first element, or
  \<^verbatim>\<open>undefined\<close> of an empty array. Reading \<^verbatim>\<open>.selections\<close> of an absent selection
  set raises a \<^verbatim>\<open>TypeError\<close>.
\<close>

definition getSelectionSetFromDelegateField ::
    "GraphQLResolveInfo \<Rightarrow> error + SelectionNode list" where
  "getSelectionSetFromDelegateField info =
     (case find (\<lambda>node. name node = fieldName info) (fieldNodes info) of
        None \<Rightarrow> Inr []
      | Some currentFieldNode \<Rightarrow>
          (case selectionSet currentFieldNode of
             None \<Rightarrow> Inl TypeError
           | Some selections \<Rightarrow>
               (case concat (map (\<lambda>field.
                        (case field of
                           Field f \<Rightarrow> if name f = ''delegate'' then [f] else []
                         | _ \<Rightarrow> [])) selections) of
                  [] \<Rightarrow> Inr []
                | delegateFieldNode # _ \<Rightarrow>
                    (case selectionSet delegateFieldNode of
                       None \<Rightarrow> Inl TypeError
                     | Some delegateSelections \<Rightarrow>
                         Inr (filter (\<lambda>node.
                                (case node of
                                   Field f \<Rightarrow> name f \<noteq> ''id''
                                 | _ \<Rightarrow> False)) delegateSelections)))))"

section \<open>The query fusion builder\<close>

text \<open>
  The document that \<^verbatim>\<open>parse\<close> returns for the template of lines 429-443: one query
  operation and one fragment definition.
\<close>

definition fusedDelegateQueryDocument :: DocumentNode where
  "fusedDelegateQueryDocument =
     [OperationDefinition QUERY (Some ''FusedDelegateQuery'')
        [Field (FieldNode None ''delegates''
           [(''first'', IntValue 1000),
            (''orderBy'', EnumValue ''delegatedVotesRaw''),
            (''orderDirection'', EnumValue ''desc'')]
           []
           (Some [FragmentSpread ''DelegateFields'' []]))],
      FragmentDefinition ''DelegateFields'' ''Delegate''
        [Field (FieldNode None ''id'' [] [] None)]]"

text \<open>
  \<^verbatim>\<open>visit(document, { [Kind.FRAGMENT_DEFINITION](node) { ... } })\<close>: graphql-js calls
  the function on every fragment definition of the document and puts what it returns
  in the node's place; every other node is kept. Fragment definitions occur only among
  the definitions of a document.
\<close>

definition visit_FRAGMENT_DEFINITION ::
    "(DefinitionNode \<Rightarrow> DefinitionNode) \<Rightarrow> DocumentNode \<Rightarrow> DocumentNode" where
  "visit_FRAGMENT_DEFINITION visitor document =
     map (\<lambda>node. (case node of
                     FragmentDefinition n t ss \<Rightarrow> visitor node
                   | _ \<Rightarrow> node)) document"

text \<open>\<^verbatim>\<open>buildFusedDelegateQuery\<close> (lines 424-463).\<close>

definition buildFusedDelegateQuery :: "SelectionNode list \<Rightarrow> DocumentNode" where
  "buildFusedDelegateQuery delegateFieldSelectionSet =
     visit_FRAGMENT_DEFINITION
       (\<lambda>node. (case node of
                   FragmentDefinition n t selections \<Rightarrow>
                     if n = ''DelegateFields''
                     then FragmentDefinition n t (selections @ delegateFieldSelectionSet)
                     else node
                 | _ \<Rightarrow> node))
       fusedDelegateQueryDocument"

section \<open>The statement store\<close>

text \<open>
  \<^verbatim>\<open>delegateStatements\<close> (lines 321-360) is a JavaScript \<^verbatim>\<open>Map\<close> from address to
  the value \<^verbatim>\<open>validateForm\<close> returns. A \<^verbatim>\<open>Map\<close> iterates in insertion order and
  \<^verbatim>\<open>set\<close> on a key it already holds replaces the value where the key stands, so the
  model is an association list: \<^verbatim>\<open>Map_set\<close> replaces in place or appends,
  \<^verbatim>\<open>Map_keys\<close> lists the keys in order, \<^verbatim>\<open>Map_get\<close> looks a key up. A
  \<^verbatim>\<open>Map\<close> never holds a key twice: \<^verbatim>\<open>Map_wf\<close>.
\<close>

type_synonym ('k, 'v) JSMap = "('k \<times> 'v) list"

fun Map_set :: "'k \<Rightarrow> 'v \<Rightarrow> ('k, 'v) JSMap \<Rightarrow> ('k, 'v) JSMap" where
  "Map_set k v [] = [(k, v)]"
| "Map_set k v ((k', v') # m) = (if k' = k then (k, v) # m else (k', v') # Map_set k v m)"

definition Map_keys :: "('k, 'v) JSMap \<Rightarrow> 'k list" where
  "Map_keys m = map fst m"

definition Map_get :: "('k, 'v) JSMap \<Rightarrow> 'k \<Rightarrow> 'v option" where
  "Map_get m k = map_of m k"

definition Map_wf :: "('k, 'v) JSMap \<Rightarrow> bool" where
  "Map_wf m = distinct (map fst m)"

text \<open>
  The statement values of the form, with the fields of the entry the module starts
  with. \<^verbatim>\<open>openToSponsoringProposals\<close> is \<^verbatim>\<open>"yes"\<close>, \<^verbatim>\<open>"no"\<close> or \<^verbatim>\<open>null\<close>; the
  proposal lists hold objects with an \<^verbatim>\<open>id\<close> only, the top issues a \<^verbatim>\<open>type\<close> and a
  \<^verbatim>\<open>value\<close>. The fields \<^verbatim>\<open>for\<close> and \<^verbatim>\<open>values\<close> are keywords of Isabelle and carry
  a prefix here.
\<close>

record StatementValues =
  delegateStatement :: string
  openToSponsoringProposals :: "string option"
  twitter :: string
  discord :: string
  mostValuableProposals :: "string list"
  leastValuableProposals :: "string list"
  topIssues :: "(string \<times> string) list"
  form_for :: string

record ValidatedForm =
  form_address :: string
  form_values :: StatementValues

type_synonym StatementStore = "(string, ValidatedForm) JSMap"

definition delegateStatements :: StatementStore where
  "delegateStatements =
     [(''0x2573c60a6d127755aa2dc85e342f7da2378a0cc5'',
       \<lparr>form_address = ''0x2573c60a6d127755aa2dc85e342f7da2378a0cc5'',
        form_values =
          \<lparr>delegateStatement = ''We are a group of Nounish builders and representatives from launched Nounish NFT extension projects, coming together to participate in Nouns DAO governance.'',
           openToSponsoringProposals = None,
           twitter = ''nouncil'',
           discord = '''',
           mostValuableProposals = [''121'', ''87'', ''77''],
           leastValuableProposals = [''127'', ''122'', ''74''],
           topIssues =
             [(''proliferation'',
               ''Proliferation, above revenue generation, should be the number one focus.''),
              (''treasury'',
               ''We believe that active management of the treasury is a distraction.'')],
           form_for = ''nouns-agora''\<rparr>\<rparr>)]"

section \<open>The remote schema\<close>

text \<open>
  A row of the remote \<^verbatim>\<open>delegates\<close> list: its \<^verbatim>\<open>id\<close> and whatever other fields the
  query selected, by response key. What \<^verbatim>\<open>graphql({ schema, source })\<close> resolves to is
  an \<^verbatim>\<open>ExecutionResult\<close>: \<^verbatim>\<open>errors\<close> is absent or a list, and \<^verbatim>\<open>data_delegates\<close> is
  \<^verbatim>\<open>data.delegates\<close>, \<^verbatim>\<open>None\<close> when \<^verbatim>\<open>data\<close> or \<^verbatim>\<open>data.delegates\<close> is
  \<^verbatim>\<open>null\<close> or \<^verbatim>\<open>undefined\<close> (calling \<^verbatim>\<open>.map\<close> then raises a \<^verbatim>\<open>TypeError\<close>).
  The remote schema \<^verbatim>\<open>nounsSchema\<close> is made by a module that is not part of the sources
  at hand; it is a parameter, a function from the document sent to the result.
  \<^verbatim>\<open>print\<close> and the remote's own \<^verbatim>\<open>parse\<close> are taken to be inverse.
\<close>

record RemoteDelegateData =
  delegate_id :: string
  delegate_fields :: "(string \<times> string) list"

record ExecutionResult =
  errors :: "GraphQLError list option"
  data_delegates :: "RemoteDelegateData list option"

type_synonym RemoteSchema = "DocumentNode \<Rightarrow> ExecutionResult"

record WrappedDelegate =
  address :: string
  underlyingDelegate :: "RemoteDelegateData option"

text \<open>\<^verbatim>\<open>Array.prototype.join\<close> on strings.\<close>

fun join :: "string list \<Rightarrow> string \<Rightarrow> string" where
  "join [] sep = []"
| "join [x] sep = x"
| "join (x # y # xs) sep = x @ sep @ join (y # xs) sep"

section \<open>The resolver of \<^verbatim>\<open>wrappedDelegates\<close>\<close>

text \<open>
  \<^verbatim>\<open>Query.wrappedDelegates\<close> (lines 398-505). The resolver returns what it resolves
  to or throws, and the list of the documents it sent to the remote schema, in order.
  \<^verbatim>\<open>if (executionResult.errors)\<close> holds for every array, the empty one too. A JavaScript
  \<^verbatim>\<open>Set\<close> of strings is the set of the list's elements, \<^verbatim>\<open>has\<close> is membership.
\<close>

definition wrappedDelegates ::
    "GraphQLResolveInfo \<Rightarrow> StatementStore \<Rightarrow> RemoteSchema \<Rightarrow>
       (error + WrappedDelegate list) \<times> DocumentNode list" where
  "wrappedDelegates info store nounsSchema =
     (case getSelectionSetFromDelegateField info of
        Inl e \<Rightarrow> (Inl e, [])
      | Inr delegateFieldSelectionSet \<Rightarrow>
          (let fusedDelegateQuery = buildFusedDelegateQuery delegateFieldSelectionSet;
               fromDelegateStatements =
                 map (\<lambda>a. \<lparr>address = a, underlyingDelegate = None\<rparr>) (Map_keys store);
               executionResult = nounsSchema fusedDelegateQuery
           in (case errors executionResult of
                 Some es \<Rightarrow> Inl (AggregateError es (join (map message es) '', \<newline>''))
               | None \<Rightarrow>
                   (case data_delegates executionResult of
                      None \<Rightarrow> Inl TypeError
                    | Some delegates \<Rightarrow>
                        (let remoteDelegates =
                               map (\<lambda>delegate. \<lparr>address = delegate_id delegate,
                                                underlyingDelegate = Some delegate\<rparr>) delegates;
                             remoteDelegatesSet = set (map address remoteDelegates)
                         in Inr (remoteDelegates @
                                 filter (\<lambda>it. address it \<notin> remoteDelegatesSet)
                                   fromDelegateStatements))),
               [fusedDelegateQuery])))"

section \<open>The resolver of \<^verbatim>\<open>WrappedDelegate.delegate\<close>\<close>

text \<open>
  What \<^verbatim>\<open>delegateToSchema\<close> is called with at lines 576-583: the operation, the
  field name, the arguments and the \<^verbatim>\<open>info\<close> of the caller (the schema is always
  \<^verbatim>\<open>nounsSchema\<close>, the context is passed through). \<^verbatim>\<open>delegateToSchema\<close> is a
  function of \<^verbatim>\<open>@graphql-tools/delegate\<close> and a parameter here: it fails, or yields the
  remote's delegate, \<^verbatim>\<open>null\<close> when the remote has none of that id.
\<close>

record DelegationRequest =
  request_operation :: OperationTypeNode
  request_fieldName :: string
  request_args :: "(string \<times> string) list"
  request_info :: GraphQLResolveInfo

type_synonym DelegateToSchema = "DelegationRequest \<Rightarrow> error + RemoteDelegateData option"

text \<open>
  \<^verbatim>\<open>WrappedDelegate.delegate\<close> (lines 571-584). An object is always truthy, so
  \<^verbatim>\<open>if (underlyingDelegate)\<close> asks whether the field is there.
\<close>

definition WrappedDelegate_delegate ::
    "DelegateToSchema \<Rightarrow> WrappedDelegate \<Rightarrow> GraphQLResolveInfo \<Rightarrow>
       error + RemoteDelegateData option" where
  "WrappedDelegate_delegate delegateToSchema parent info =
     (case underlyingDelegate parent of
        Some d \<Rightarrow> Inr (Some d)
      | None \<Rightarrow>
          delegateToSchema
            \<lparr>request_operation = QUERY,
             request_fieldName = ''delegate'',
             request_args = [(''id'', address parent)],
             request_info = info\<rparr>)"

section \<open>The mutation \<^verbatim>\<open>createNewDelegateStatement\<close>\<close>

text \<open>
  \<^verbatim>\<open>args.data\<close> of the mutation, and the object it returns. \<^verbatim>\<open>validateForm\<close> comes
  from the module \<^verbatim>\<open>./formSchema\<close>, which is not part of the sources at hand: it is a
  parameter, a function of the statement's JSON text and its signature that returns the
  validated form or throws.
\<close>

record CreateNewDelegateStatementData =
  statementBodyJson :: string
  statementBodyJsonSignature :: string

record CreateNewDelegateStatementResult =
  result_address :: string

type_synonym ValidateForm = "string \<Rightarrow> string \<Rightarrow> error + ValidatedForm"

text \<open>
  \<^verbatim>\<open>Mutation.createNewDelegateStatement\<close> (lines 632-645): what the resolver returns
  or throws, and the store afterwards.
\<close>

definition createNewDelegateStatement ::
    "ValidateForm \<Rightarrow> CreateNewDelegateStatementData \<Rightarrow> StatementStore \<Rightarrow>
       (error + CreateNewDelegateStatementResult) \<times> StatementStore" where
  "createNewDelegateStatement validateForm data store =
     (case validateForm (statementBodyJson data) (statementBodyJsonSignature data) of
        Inl e \<Rightarrow> (Inl e, store)
      | Inr validated \<Rightarrow>
          (Inr \<lparr>result_address = form_address validated\<rparr>,
           Map_set (form_address validated) validated store))"

section \<open>Notions the properties are stated with\<close>

text \<open>\<^verbatim>\<open>node.name.value\<close> of a selection: an inline fragment has no name.\<close>

fun name_value :: "SelectionNode \<Rightarrow> string option" where
  "name_value (Field f) = Some (name f)"
| "name_value (FragmentSpread n ds) = Some n"
| "name_value (InlineFragment t ds ss) = None"

text \<open>A selection that is a field of the given name.\<close>

definition isFieldNamed :: "string \<Rightarrow> SelectionNode \<Rightarrow> bool" where
  "isFieldNamed n s = (kind s = ''Field'' \<and> name_value s = Some n)"

text \<open>A selection that is a field of another name than the given one.\<close>

definition isFieldNotNamed :: "string \<Rightarrow> SelectionNode \<Rightarrow> bool" where
  "isFieldNotNamed n s = (kind s = ''Field'' \<and> name_value s \<noteq> Some n)"


text \<open>The selections of the fragment of a given name in a document.\<close>

fun fragmentSelections :: "string \<Rightarrow> DocumentNode \<Rightarrow> SelectionNode list option" where
  "fragmentSelections n [] = None"
| "fragmentSelections n (OperationDefinition ot on ss # ds) = fragmentSelections n ds"
| "fragmentSelections n (FragmentDefinition m t ss # ds) =
     (if m = n then Some ss else fragmentSelections n ds)"

text \<open>The identity field as the template of the fused query selects it: \<^verbatim>\<open>id\<close>.\<close>

definition identityField :: SelectionNode where
  "identityField = Field (FieldNode None ''id'' [] [] None)"

text \<open>A leaf field selected by its name alone, as in \<^verbatim>\<open>{ delegatedVotes }\<close>.\<close>

definition leafField :: "string \<Rightarrow> SelectionNode" where
  "leafField n = Field (FieldNode None n [] [] None)"

text \<open>
  The \<^verbatim>\<open>info\<close> of the request
  \<^verbatim>\<open>query { wrappedDelegates { id delegate { S } } }\<close>, for a sub-selection \<^verbatim>\<open>S\<close>.
\<close>

definition delegateRequest :: "SelectionNode list \<Rightarrow> GraphQLResolveInfo" where
  "delegateRequest S =
     \<lparr>fieldName = ''wrappedDelegates'',
      fieldNodes =
        [FieldNode None ''wrappedDelegates'' [] []
           (Some [leafField ''id'',
                  Field (FieldNode None ''delegate'' [] [] (Some S))])]\<rparr>"

text \<open>
  The \<^verbatim>\<open>info\<close> of the request \<^verbatim>\<open>query { wrappedDelegates { id } }\<close>, which asks for
  nothing of the delegate.
\<close>

definition plainRequest :: GraphQLResolveInfo where
  "plainRequest =
     \<lparr>fieldName = ''wrappedDelegates'',
      fieldNodes = [FieldNode None ''wrappedDelegates'' [] [] (Some [leafField ''id''])]\<rparr>"

section \<open>Sample inputs\<close>

text \<open>
  The sub-selection
  \<^verbatim>\<open>{ id delegatedVotes ... on Delegate { tokenHoldersRepresentedAmount } }\<close>,
  a request whose field nodes are empty, the request
  \<^verbatim>\<open>{ wrappedDelegates { id } wrappedDelegates { delegate { delegatedVotes } } }\<close>
  with its two field nodes, the request
  \<^verbatim>\<open>{ wrappedDelegates { ... on WrappedDelegate { delegate { delegatedVotes } } } }\<close>,
  a store of three statements, a remote schema that answers with two delegates, one that
  answers so to the fused query without extra selections only, and one that answers
  with two errors, a delegation that looks the delegate up among the two, and a
  validator that accepts what is signed \<^verbatim>\<open>0xsigned\<close> as a statement of the address
  \<^verbatim>\<open>0xaa\<close>.
\<close>

definition exampleSelection :: "SelectionNode list" where
  "exampleSelection =
     [leafField ''id'',
      leafField ''delegatedVotes'',
      InlineFragment (Some ''Delegate'') [] [leafField ''tokenHoldersRepresentedAmount'']]"

definition rootlessRequest :: GraphQLResolveInfo where
  "rootlessRequest = \<lparr>fieldName = ''wrappedDelegates'', fieldNodes = []\<rparr>"

definition splitRequest :: GraphQLResolveInfo where
  "splitRequest =
     \<lparr>fieldName = ''wrappedDelegates'',
      fieldNodes =
        [FieldNode None ''wrappedDelegates'' [] [] (Some [leafField ''id'']),
         FieldNode None ''wrappedDelegates'' [] []
           (Some [Field (FieldNode None ''delegate'' [] []
                    (Some [leafField ''delegatedVotes'']))])]\<rparr>"

definition fragmentWrappedRequest :: GraphQLResolveInfo where
  "fragmentWrappedRequest =
     \<lparr>fieldName = ''wrappedDelegates'',
      fieldNodes =
        [FieldNode None ''wrappedDelegates'' [] []
           (Some [InlineFragment (Some ''WrappedDelegate'') []
                    [Field (FieldNode None ''delegate'' [] []
                       (Some [leafField ''delegatedVotes'']))]])]\<rparr>"

definition exampleValues :: "string \<Rightarrow> StatementValues" where
  "exampleValues s =
     \<lparr>delegateStatement = s, openToSponsoringProposals = Some ''yes'', twitter = '''',
      discord = '''', mostValuableProposals = [], leastValuableProposals = [],
      topIssues = [], form_for = ''nouns-agora''\<rparr>"

definition exampleForm :: "string \<Rightarrow> ValidatedForm" where
  "exampleForm a = \<lparr>form_address = a, form_values = exampleValues ''Hello''\<rparr>"

definition exampleStore :: StatementStore where
  "exampleStore =
     [(''0xcc'', exampleForm ''0xcc''), (''0xaa'', exampleForm ''0xaa''),
      (''0xbb'', exampleForm ''0xbb'')]"

definition exampleRows :: "RemoteDelegateData list" where
  "exampleRows =
     [\<lparr>delegate_id = ''0xdd'', delegate_fields = [(''delegatedVotes'', ''12'')]\<rparr>,
      \<lparr>delegate_id = ''0xaa'', delegate_fields = [(''delegatedVotes'', ''7'')]\<rparr>]"

definition exampleSchema :: RemoteSchema where
  "exampleSchema document = \<lparr>errors = None, data_delegates = Some exampleRows\<rparr>"

definition idOnlySchema :: RemoteSchema where
  "idOnlySchema document =
     (if document = buildFusedDelegateQuery []
      then \<lparr>errors = None, data_delegates = Some exampleRows\<rparr>
      else \<lparr>errors = Some [\<lparr>message = ''unexpected query''\<rparr>], data_delegates = None\<rparr>)"

definition failingSchema :: RemoteSchema where
  "failingSchema document =
     \<lparr>errors = Some [\<lparr>message = ''timeout''\<rparr>, \<lparr>message = ''bad gateway''\<rparr>],
      data_delegates = Some exampleRows\<rparr>"

definition exampleDelegateToSchema :: DelegateToSchema where
  "exampleDelegateToSchema request =
     Inr (find (\<lambda>d. request_args request = [(''id'', delegate_id d)]) exampleRows)"

definition exampleValidateForm :: ValidateForm where
  "exampleValidateForm body signature =
     (if signature = ''0xsigned''
      then Inr \<lparr>form_address = ''0xaa'', form_values = exampleValues body\<rparr>
      else Inl (ValidationError ''signature mismatch''))"

section \<open>The store: lookups, keys and well-formedness\<close>

lemma Map_get_Map_set: "Map_get (Map_set k v m) k' = (if k' = k then Some v else Map_get m k')"
  unfolding Map_get_def by (induction m) auto

lemma Map_keys_Map_set:
  "Map_keys (Map_set k v m) = (if k \<in> set (Map_keys m) then Map_keys m else Map_keys m @ [k])"
  unfolding Map_keys_def by (induction m) (auto simp: rev_image_eqI)

lemma Map_wf_Map_set: "Map_wf m \<Longrightarrow> Map_wf (Map_set k v m)"
  unfolding Map_wf_def using Map_keys_Map_set [of k v m] by (simp add: Map_keys_def split: if_splits)

lemma Map_wf_delegateStatements: "Map_wf delegateStatements"
  by (simp add: Map_wf_def delegateStatements_def)

lemma Map_wf_exampleStore: "Map_wf exampleStore"
  by (simp add: Map_wf_def exampleStore_def)

lemma filter_key_Map_set:
  "Map_wf m \<Longrightarrow> filter (\<lambda>p. fst p = k) (Map_set k v m) = [(k, v)]"
  unfolding Map_wf_def
proof (induction m)
  case Nil
  then show ?case by simp
next
  case (Cons p m)
  obtain k' v' where p: "p = (k', v')" by (cases p)
  show ?case
  proof (cases "k' = k")
    case True
    with Cons.prems p have "k \<notin> fst ` set m" by simp
    then have "filter (\<lambda>p. fst p = k) m = []" by (auto simp: filter_empty_conv)
    with True p show ?thesis by simp
  next
    case False
    with Cons p show ?thesis by simp
  qed
qed

lemma Map_set_idem: "Map_set k v (Map_set k v m) = Map_set k v m"
  by (induction m) auto

section \<open>The extractor, case by case\<close>

lemma extractor_filter_conv:
  "filter (\<lambda>node. (case node of Field f \<Rightarrow> name f \<noteq> ''id'' | _ \<Rightarrow> False)) S =
   filter (isFieldNotNamed ''id'') S"
  by (rule filter_cong) (auto simp: isFieldNotNamed_def split: SelectionNode.splits)

lemma flatMap_no_delegate:
  assumes "\<forall>x\<in>set sels. \<not> isFieldNamed ''delegate'' x"
  shows "concat (map (\<lambda>field. (case field of
                        Field f \<Rightarrow> if name f = ''delegate'' then [f] else []
                      | _ \<Rightarrow> [])) sels) = []"
  using assms by (induction sels) (auto simp: isFieldNamed_def split: SelectionNode.splits)

lemma flatMap_first_delegate:
  assumes "\<forall>x\<in>set pre. \<not> isFieldNamed ''delegate'' x" and "name d = ''delegate''"
  shows "\<exists>rest. concat (map (\<lambda>field. (case field of
                        Field f \<Rightarrow> if name f = ''delegate'' then [f] else []
                      | _ \<Rightarrow> [])) (pre @ Field d # post)) = d # rest"
  using assms by (induction pre) (auto simp: isFieldNamed_def split: SelectionNode.splits)

lemma extractor_root_absent:
  assumes "find (\<lambda>node. name node = fieldName info) (fieldNodes info) = None"
  shows "getSelectionSetFromDelegateField info = Inr []"
  using assms by (simp add: getSelectionSetFromDelegateField_def)

lemma extractor_delegate_absent:
  assumes "find (\<lambda>node. name node = fieldName info) (fieldNodes info) = Some cur"
      and "selectionSet cur = Some sels"
      and "\<forall>x\<in>set sels. \<not> isFieldNamed ''delegate'' x"
  shows "getSelectionSetFromDelegateField info = Inr []"
  using assms(1,2)
  by (simp add: getSelectionSetFromDelegateField_def flatMap_no_delegate [OF assms(3)])

lemma extractor_delegate_present:
  assumes "find (\<lambda>node. name node = fieldName info) (fieldNodes info) = Some cur"
      and "selectionSet cur = Some (pre @ Field d # post)"
      and "\<forall>x\<in>set pre. \<not> isFieldNamed ''delegate'' x"
      and "name d = ''delegate''"
      and "selectionSet d = Some S"
  shows "getSelectionSetFromDelegateField info = Inr (filter (isFieldNotNamed ''id'') S)"
proof -
  from flatMap_first_delegate [OF assms(3,4)] obtain rest where
    "concat (map (\<lambda>field. (case field of
                        Field f \<Rightarrow> if name f = ''delegate'' then [f] else []
                      | _ \<Rightarrow> [])) (pre @ Field d # post)) = d # rest" by blast
  with assms(1,2,5) show ?thesis
    by (simp add: getSelectionSetFromDelegateField_def extractor_filter_conv)
qed

lemma plainRequest_extract: "getSelectionSetFromDelegateField plainRequest = Inr []"
  by (simp add: getSelectionSetFromDelegateField_def plainRequest_def leafField_def)

lemma delegateRequest_extract:
  "getSelectionSetFromDelegateField (delegateRequest exampleSelection) =
     Inr [leafField ''delegatedVotes'']"
  by (simp add: getSelectionSetFromDelegateField_def delegateRequest_def exampleSelection_def
      leafField_def)

lemma rootlessRequest_extract: "getSelectionSetFromDelegateField rootlessRequest = Inr []"
  by (simp add: getSelectionSetFromDelegateField_def rootlessRequest_def)

lemma splitRequest_extract: "getSelectionSetFromDelegateField splitRequest = Inr []"
  by (simp add: getSelectionSetFromDelegateField_def splitRequest_def leafField_def)

lemma fragmentWrappedRequest_extract:
  "getSelectionSetFromDelegateField fragmentWrappedRequest = Inr []"
  by (simp add: getSelectionSetFromDelegateField_def fragmentWrappedRequest_def)

section \<open>The fused query and the resolvers\<close>

lemma buildFusedDelegateQuery_document:
  "buildFusedDelegateQuery extra =
     [OperationDefinition QUERY (Some ''FusedDelegateQuery'')
        [Field (FieldNode None ''delegates''
           [(''first'', IntValue 1000),
            (''orderBy'', EnumValue ''delegatedVotesRaw''),
            (''orderDirection'', EnumValue ''desc'')]
           []
           (Some [FragmentSpread ''DelegateFields'' []]))],
      FragmentDefinition ''DelegateFields'' ''Delegate'' (identityField # extra)]"
  by (simp add: buildFusedDelegateQuery_def visit_FRAGMENT_DEFINITION_def
      fusedDelegateQueryDocument_def identityField_def)

lemma fragmentSelections_fused:
  "fragmentSelections ''DelegateFields'' (buildFusedDelegateQuery extra) = Some (identityField # extra)"
  by (simp add: buildFusedDelegateQuery_document)

lemma wrappedDelegates_calls:
  assumes "getSelectionSetFromDelegateField info = Inr extra"
  shows "snd (wrappedDelegates info store nounsSchema) = [buildFusedDelegateQuery extra]"
  using assms by (simp add: wrappedDelegates_def Let_def)

lemma wrappedDelegates_errors:
  assumes "getSelectionSetFromDelegateField info = Inr extra"
      and "errors (nounsSchema (buildFusedDelegateQuery extra)) = Some es"
  shows "fst (wrappedDelegates info store nounsSchema) =
           Inl (AggregateError es (join (map message es) '', \<newline>''))"
  using assms by (simp add: wrappedDelegates_def Let_def)

lemma wrappedDelegates_result:
  assumes "getSelectionSetFromDelegateField info = Inr extra"
      and "errors (nounsSchema (buildFusedDelegateQuery extra)) = None"
      and "data_delegates (nounsSchema (buildFusedDelegateQuery extra)) = Some delegates"
  shows "fst (wrappedDelegates info store nounsSchema) =
           Inr (map (\<lambda>d. \<lparr>address = delegate_id d, underlyingDelegate = Some d\<rparr>) delegates @
                map (\<lambda>a. \<lparr>address = a, underlyingDelegate = None\<rparr>)
                  (filter (\<lambda>a. a \<notin> delegate_id ` set delegates) (Map_keys store)))"
  using assms by (simp add: wrappedDelegates_def Let_def filter_map comp_def image_image)

lemma wrappedDelegates_no_rows:
  assumes "getSelectionSetFromDelegateField info = Inr extra"
      and "errors (nounsSchema (buildFusedDelegateQuery extra)) = None"
      and "data_delegates (nounsSchema (buildFusedDelegateQuery extra)) = None"
  shows "fst (wrappedDelegates info store nounsSchema) = Inl TypeError"
  using assms by (simp add: wrappedDelegates_def Let_def)

lemma wrappedDelegates_outcome:
  assumes "getSelectionSetFromDelegateField info = Inr extra"
  shows "wrappedDelegates info store nounsSchema =
           ((case errors (nounsSchema (buildFusedDelegateQuery extra)) of
               Some es \<Rightarrow> Inl (AggregateError es (join (map message es) '', \<newline>''))
             | None \<Rightarrow>
                 (case data_delegates (nounsSchema (buildFusedDelegateQuery extra)) of
                    None \<Rightarrow> Inl TypeError
                  | Some delegates \<Rightarrow>
                      Inr (map (\<lambda>d. \<lparr>address = delegate_id d, underlyingDelegate = Some d\<rparr>)
                             delegates @
                           map (\<lambda>a. \<lparr>address = a, underlyingDelegate = None\<rparr>)
                             (filter (\<lambda>a. a \<notin> delegate_id ` set delegates) (Map_keys store))))),
            [buildFusedDelegateQuery extra])"
proof -
  let ?r = "nounsSchema (buildFusedDelegateQuery extra)"
  have log: "snd (wrappedDelegates info store nounsSchema) = [buildFusedDelegateQuery extra]"
    by (rule wrappedDelegates_calls [OF assms])
  show ?thesis
  proof (cases "errors ?r")
    case (Some es)
    from wrappedDelegates_errors [where nounsSchema = nounsSchema, OF assms Some, of store] log Some
    show ?thesis by (simp add: prod_eq_iff)
  next
    case None
    show ?thesis
    proof (cases "data_delegates ?r")
      case nodata: None
      from wrappedDelegates_no_rows [where nounsSchema = nounsSchema, OF assms None nodata, of store]
        log None nodata
      show ?thesis by (simp add: prod_eq_iff)
    next
      case (Some delegates)
      from wrappedDelegates_result [where nounsSchema = nounsSchema, OF assms None Some, of store]
        log None Some
      show ?thesis by (simp add: prod_eq_iff)
    qed
  qed
qed

lemma filter_address_remote:
  "filter (\<lambda>w. address w = A)
     (map (\<lambda>d. \<lparr>address = delegate_id d, underlyingDelegate = Some d\<rparr>) delegates) =
   map (\<lambda>d. \<lparr>address = delegate_id d, underlyingDelegate = Some d\<rparr>)
     (filter (\<lambda>d. delegate_id d = A) delegates)"
  by (simp add: filter_map comp_def)

lemma filter_address_store:
  "filter (\<lambda>w. address w = A) (map (\<lambda>a. \<lparr>address = a, underlyingDelegate = None\<rparr>) ks) =
   map (\<lambda>a. \<lparr>address = a, underlyingDelegate = None\<rparr>) (filter (\<lambda>a. a = A) ks)"
  by (simp add: filter_map comp_def)

lemma filter_eq_distinct:
  "distinct ks \<Longrightarrow> filter (\<lambda>a. a = A) ks = (if A \<in> set ks then [A] else [])"
  by (induction ks) (auto simp: filter_empty_conv)

lemma createNewDelegateStatement_valid:
  assumes "validateForm (statementBodyJson data) (statementBodyJsonSignature data) = Inr validated"
  shows "createNewDelegateStatement validateForm data store =
           (Inr \<lparr>result_address = form_address validated\<rparr>,
            Map_set (form_address validated) validated store)"
  using assms by (simp add: createNewDelegateStatement_def)

section \<open>The claims\<close>

text \<open>
  C1, as amended. For every \<^verbatim>\<open>wrappedDelegates\<close> request, let \<open>S\<close> be the
  sub-selection of the first field named \<^verbatim>\<open>delegate\<close> that stands directly among
  the selections of the first field node of the request with the name of the field being
  resolved. The \<^verbatim>\<open>DelegateFields\<close> fragment of the fused query that the resolver
  sends is the identity field \<^verbatim>\<open>id\<close> followed by the selections of \<open>S\<close> that are
  fields of another name than \<^verbatim>\<open>id\<close>, each unchanged and in order: no such field is
  dropped or renamed. When there is no such field node, or no \<^verbatim>\<open>delegate\<close> field
  directly among its selections (it may stand in a later field node or inside a
  fragment), the fragment is \<^verbatim>\<open>id\<close> alone. Fragment spreads and inline fragments of
  \<open>S\<close> are not carried over. For every list of extra selections the fragment holds the
  identity field and all of the list.
\<close>

theorem fused_query_keeps_requested_fields:
  "(\<exists>frag. fragmentSelections ''DelegateFields'' (buildFusedDelegateQuery anyExtra) = Some frag \<and>
      identityField \<in> set frag \<and> set anyExtra \<subseteq> set frag) \<and>
   (find (\<lambda>node. name node = fieldName info) (fieldNodes info) = None \<longrightarrow>
      getSelectionSetFromDelegateField info = Inr [] \<and>
      snd (wrappedDelegates info store nounsSchema) = [buildFusedDelegateQuery []] \<and>
      fragmentSelections ''DelegateFields'' (buildFusedDelegateQuery []) = Some [identityField]) \<and>
   (find (\<lambda>node. name node = fieldName info) (fieldNodes info) = Some cur \<and>
    selectionSet cur = Some sels \<and> (\<forall>x\<in>set sels. \<not> isFieldNamed ''delegate'' x) \<longrightarrow>
      getSelectionSetFromDelegateField info = Inr [] \<and>
      snd (wrappedDelegates info store nounsSchema) = [buildFusedDelegateQuery []] \<and>
      fragmentSelections ''DelegateFields'' (buildFusedDelegateQuery []) = Some [identityField]) \<and>
   (find (\<lambda>node. name node = fieldName info) (fieldNodes info) = Some cur \<and>
    selectionSet cur = Some (pre @ Field d # post) \<and>
    (\<forall>x\<in>set pre. \<not> isFieldNamed ''delegate'' x) \<and>
    name d = ''delegate'' \<and> selectionSet d = Some S \<longrightarrow>
      (\<exists>extra frag.
         getSelectionSetFromDelegateField info = Inr extra \<and>
         snd (wrappedDelegates info store nounsSchema) = [buildFusedDelegateQuery extra] \<and>
         fragmentSelections ''DelegateFields'' (buildFusedDelegateQuery extra) = Some frag \<and>
         frag = identityField # filter (isFieldNotNamed ''id'') S \<and>
         identityField \<in> set frag \<and>
         (\<forall>s\<in>set S. isFieldNotNamed ''id'' s \<longrightarrow> s \<in> set frag)))"
proof -
  have always: "\<exists>frag. fragmentSelections ''DelegateFields'' (buildFusedDelegateQuery anyExtra) =
      Some frag \<and> identityField \<in> set frag \<and> set anyExtra \<subseteq> set frag"
    by (auto simp: fragmentSelections_fused)
  have id_only: "getSelectionSetFromDelegateField info = Inr [] \<and>
      snd (wrappedDelegates info store nounsSchema) = [buildFusedDelegateQuery []] \<and>
      fragmentSelections ''DelegateFields'' (buildFusedDelegateQuery []) = Some [identityField]"
    if "getSelectionSetFromDelegateField info = Inr []"
    using that wrappedDelegates_calls [OF that, of store nounsSchema]
    by (simp add: fragmentSelections_fused)
  have no_root: "getSelectionSetFromDelegateField info = Inr [] \<and>
      snd (wrappedDelegates info store nounsSchema) = [buildFusedDelegateQuery []] \<and>
      fragmentSelections ''DelegateFields'' (buildFusedDelegateQuery []) = Some [identityField]"
    if "find (\<lambda>node. name node = fieldName info) (fieldNodes info) = None"
    using id_only extractor_root_absent [OF that] by blast
  have no_delegate: "getSelectionSetFromDelegateField info = Inr [] \<and>
      snd (wrappedDelegates info store nounsSchema) = [buildFusedDelegateQuery []] \<and>
      fragmentSelections ''DelegateFields'' (buildFusedDelegateQuery []) = Some [identityField]"
    if "find (\<lambda>node. name node = fieldName info) (fieldNodes info) = Some cur"
      and "selectionSet cur = Some sels"
      and "\<forall>x\<in>set sels. \<not> isFieldNamed ''delegate'' x"
    using id_only extractor_delegate_absent [OF that] by blast
  have requested: "\<exists>extra frag.
         getSelectionSetFromDelegateField info = Inr extra \<and>
         snd (wrappedDelegates info store nounsSchema) = [buildFusedDelegateQuery extra] \<and>
         fragmentSelections ''DelegateFields'' (buildFusedDelegateQuery extra) = Some frag \<and>
         frag = identityField # filter (isFieldNotNamed ''id'') S \<and>
         identityField \<in> set frag \<and>
         (\<forall>s\<in>set S. isFieldNotNamed ''id'' s \<longrightarrow> s \<in> set frag)"
    if "find (\<lambda>node. name node = fieldName info) (fieldNodes info) = Some cur"
      and "selectionSet cur = Some (pre @ Field d # post)"
      and "\<forall>x\<in>set pre. \<not> isFieldNamed ''delegate'' x"
      and "name d = ''delegate''"
      and "selectionSet d = Some S"
    using extractor_delegate_present [OF that]
      wrappedDelegates_calls [OF extractor_delegate_present [OF that], of store nounsSchema]
    by (simp add: fragmentSelections_fused)
  from always no_root no_delegate requested show ?thesis by blast
qed

theorem fused_query_keeps_requested_fields_witness:
  "snd (wrappedDelegates rootlessRequest exampleStore exampleSchema) = [buildFusedDelegateQuery []] \<and>
   snd (wrappedDelegates splitRequest exampleStore exampleSchema) = [buildFusedDelegateQuery []] \<and>
   snd (wrappedDelegates fragmentWrappedRequest exampleStore exampleSchema) =
     [buildFusedDelegateQuery []] \<and>
   fragmentSelections ''DelegateFields'' (buildFusedDelegateQuery []) = Some [identityField] \<and>
   snd (wrappedDelegates (delegateRequest exampleSelection) exampleStore exampleSchema) =
     [buildFusedDelegateQuery [leafField ''delegatedVotes'']] \<and>
   fragmentSelections ''DelegateFields'' (buildFusedDelegateQuery [leafField ''delegatedVotes'']) =
     Some [identityField, leafField ''delegatedVotes'']"
proof -
  let ?d = "FieldNode None ''delegate'' [] [] (Some exampleSelection)"
  let ?cur = "FieldNode None ''wrappedDelegates'' [] [] (Some ([leafField ''id''] @ Field ?d # []))"
  let ?plain = "FieldNode None ''wrappedDelegates'' [] [] (Some [leafField ''id''])"
  let ?inner = "InlineFragment (Some ''WrappedDelegate'') []
                    [Field (FieldNode None ''delegate'' [] []
                       (Some [leafField ''delegatedVotes'']))]"
  let ?wrapped = "FieldNode None ''wrappedDelegates'' [] [] (Some [?inner])"
  have a: "find (\<lambda>node. name node = fieldName rootlessRequest) (fieldNodes rootlessRequest) = None"
    by (simp add: rootlessRequest_def)
  have b: "find (\<lambda>node. name node = fieldName splitRequest) (fieldNodes splitRequest) = Some ?plain \<and>
           selectionSet ?plain = Some [leafField ''id''] \<and>
           (\<forall>x\<in>set [leafField ''id'']. \<not> isFieldNamed ''delegate'' x)"
    by (simp add: splitRequest_def isFieldNamed_def leafField_def)
  have c: "find (\<lambda>node. name node = fieldName fragmentWrappedRequest)
             (fieldNodes fragmentWrappedRequest) = Some ?wrapped \<and>
           selectionSet ?wrapped = Some [?inner] \<and>
           (\<forall>x\<in>set [?inner]. \<not> isFieldNamed ''delegate'' x)"
    by (simp add: fragmentWrappedRequest_def isFieldNamed_def)
  have e: "find (\<lambda>node. name node = fieldName (delegateRequest exampleSelection))
              (fieldNodes (delegateRequest exampleSelection)) = Some ?cur \<and>
           selectionSet ?cur = Some ([leafField ''id''] @ Field ?d # []) \<and>
           (\<forall>x\<in>set [leafField ''id'']. \<not> isFieldNamed ''delegate'' x) \<and>
           name ?d = ''delegate'' \<and> selectionSet ?d = Some exampleSelection"
    by (simp add: delegateRequest_def isFieldNamed_def leafField_def)
  have f: "filter (isFieldNotNamed ''id'') exampleSelection = [leafField ''delegatedVotes'']"
    by (simp add: exampleSelection_def isFieldNotNamed_def leafField_def)
  from a fused_query_keeps_requested_fields
    [where info = rootlessRequest and store = exampleStore and nounsSchema = exampleSchema]
  have 1: "snd (wrappedDelegates rootlessRequest exampleStore exampleSchema) =
             [buildFusedDelegateQuery []] \<and>
           fragmentSelections ''DelegateFields'' (buildFusedDelegateQuery []) = Some [identityField]"
    by blast
  from b fused_query_keeps_requested_fields
    [where info = splitRequest and store = exampleStore and nounsSchema = exampleSchema
       and cur = ?plain and sels = "[leafField ''id'']"]
  have 2: "snd (wrappedDelegates splitRequest exampleStore exampleSchema) =
             [buildFusedDelegateQuery []]"
    by blast
  from c fused_query_keeps_requested_fields
    [where info = fragmentWrappedRequest and store = exampleStore and nounsSchema = exampleSchema
       and cur = ?wrapped and sels = "[?inner]"]
  have 3: "snd (wrappedDelegates fragmentWrappedRequest exampleStore exampleSchema) =
             [buildFusedDelegateQuery []]"
    by blast
  from e fused_query_keeps_requested_fields
    [where info = "delegateRequest exampleSelection" and store = exampleStore
       and nounsSchema = exampleSchema and cur = ?cur and pre = "[leafField ''id'']"
       and d = ?d and post = "[]" and S = exampleSelection]
  obtain extra where 4:
    "snd (wrappedDelegates (delegateRequest exampleSelection) exampleStore exampleSchema) =
       [buildFusedDelegateQuery extra]"
    "fragmentSelections ''DelegateFields'' (buildFusedDelegateQuery extra) =
       Some (identityField # filter (isFieldNotNamed ''id'') exampleSelection)"
    by blast
  from 4(2) have "extra = [leafField ''delegatedVotes'']"
    by (simp add: fragmentSelections_fused f)
  with 4 f have 5:
    "snd (wrappedDelegates (delegateRequest exampleSelection) exampleStore exampleSchema) =
       [buildFusedDelegateQuery [leafField ''delegatedVotes'']]"
    "fragmentSelections ''DelegateFields'' (buildFusedDelegateQuery [leafField ''delegatedVotes'']) =
       Some [identityField, leafField ''delegatedVotes'']"
    by simp_all
  from 1 2 3 5 show ?thesis by blast
qed

text \<open>
  C1 as it is written fails in three ways. For the sub-selection
  \<^verbatim>\<open>{ id delegatedVotes ... on Delegate { tokenHoldersRepresentedAmount } }\<close> the
  fragment of the fused query holds \<^verbatim>\<open>id\<close> and \<^verbatim>\<open>delegatedVotes\<close> only, which is
  no superset of what was requested. For
  \<^verbatim>\<open>{ wrappedDelegates { id } wrappedDelegates { delegate { delegatedVotes } } }\<close>, where
  the \<^verbatim>\<open>delegate\<close> field stands in the second field node, and for
  \<^verbatim>\<open>{ wrappedDelegates { ... on WrappedDelegate { delegate { delegatedVotes } } } }\<close>,
  where it stands inside an inline fragment, the fragment is \<^verbatim>\<open>id\<close> alone and the
  requested \<^verbatim>\<open>delegatedVotes\<close> is missing.
\<close>

theorem fused_query_drops_fragments_counterexample:
  "getSelectionSetFromDelegateField (delegateRequest exampleSelection) =
     Inr [leafField ''delegatedVotes''] \<and>
   fragmentSelections ''DelegateFields'' (buildFusedDelegateQuery [leafField ''delegatedVotes'']) =
     Some [identityField, leafField ''delegatedVotes''] \<and>
   \<not> set exampleSelection \<subseteq> set [identityField, leafField ''delegatedVotes''] \<and>
   getSelectionSetFromDelegateField splitRequest = Inr [] \<and>
   getSelectionSetFromDelegateField fragmentWrappedRequest = Inr [] \<and>
   fragmentSelections ''DelegateFields'' (buildFusedDelegateQuery []) = Some [identityField] \<and>
   leafField ''delegatedVotes'' \<notin> set [identityField]"
proof -
  have 1: "\<not> set exampleSelection \<subseteq> set [identityField, leafField ''delegatedVotes'']"
    by (simp add: exampleSelection_def leafField_def identityField_def)
  have 2: "leafField ''delegatedVotes'' \<notin> set [identityField]"
    by (simp add: leafField_def identityField_def)
  from 1 2 delegateRequest_extract splitRequest_extract fragmentWrappedRequest_extract
  show ?thesis by (simp add: fragmentSelections_fused)
qed




text \<open>
  C3. When the execution of the fused query returns a list of errors, the resolver of
  \<^verbatim>\<open>wrappedDelegates\<close> throws an \<^verbatim>\<open>AggregateError\<close> that carries all of them, its
  message their messages joined, and returns no list, whatever rows came with the errors;
  the fused query is the one document it sent.
\<close>

theorem wrappedDelegates_fails_on_remote_errors:
  assumes "getSelectionSetFromDelegateField info = Inr extra"
      and "errors (nounsSchema (buildFusedDelegateQuery extra)) = Some es"
  shows "wrappedDelegates info store nounsSchema =
           (Inl (AggregateError es (join (map message es) '', \<newline>'')),
            [buildFusedDelegateQuery extra])"
  using wrappedDelegates_errors [where nounsSchema = nounsSchema, OF assms, of store]
    wrappedDelegates_calls [OF assms(1), of store nounsSchema]
  by (simp add: prod_eq_iff)

theorem wrappedDelegates_fails_on_remote_errors_witness:
  "wrappedDelegates (delegateRequest exampleSelection) exampleStore failingSchema =
     (Inl (AggregateError [\<lparr>message = ''timeout''\<rparr>, \<lparr>message = ''bad gateway''\<rparr>]
             ''timeout, \<newline>bad gateway''),
      [buildFusedDelegateQuery [leafField ''delegatedVotes'']])"
proof -
  have e: "errors (failingSchema (buildFusedDelegateQuery [leafField ''delegatedVotes''])) =
             Some [\<lparr>message = ''timeout''\<rparr>, \<lparr>message = ''bad gateway''\<rparr>]"
    by (simp add: failingSchema_def)
  from wrappedDelegates_fails_on_remote_errors
    [where nounsSchema = failingSchema, OF delegateRequest_extract e, of exampleStore]
  show ?thesis by simp
qed

text \<open>
  C4. When the fused query succeeds, an address \<open>A\<close> that the store holds and no
  remote row has stands in the result exactly once, with \<^verbatim>\<open>underlyingDelegate\<close> absent;
  an address \<open>A\<close> that has its one remote row \<open>d\<close> stands in the result exactly once,
  with \<^verbatim>\<open>underlyingDelegate\<close> that row, whether the store holds \<open>A\<close> too or not.
\<close>

theorem wrappedDelegates_lists_each_address_once:
  assumes "Map_wf store"
      and "getSelectionSetFromDelegateField info = Inr extra"
      and "errors (nounsSchema (buildFusedDelegateQuery extra)) = None"
      and "data_delegates (nounsSchema (buildFusedDelegateQuery extra)) = Some delegates"
  shows "\<exists>result.
           fst (wrappedDelegates info store nounsSchema) = Inr result \<and>
           (A \<in> set (Map_keys store) \<and> A \<notin> delegate_id ` set delegates \<longrightarrow>
              filter (\<lambda>w. address w = A) result =
                [\<lparr>address = A, underlyingDelegate = None\<rparr>]) \<and>
           (\<forall>d. filter (\<lambda>r. delegate_id r = A) delegates = [d] \<longrightarrow>
              filter (\<lambda>w. address w = A) result =
                [\<lparr>address = A, underlyingDelegate = Some d\<rparr>])"
proof -
  let ?result = "map (\<lambda>d. \<lparr>address = delegate_id d, underlyingDelegate = Some d\<rparr>) delegates @
                map (\<lambda>a. \<lparr>address = a, underlyingDelegate = None\<rparr>)
                  (filter (\<lambda>a. a \<notin> delegate_id ` set delegates) (Map_keys store))"
  have r: "fst (wrappedDelegates info store nounsSchema) = Inr ?result"
    by (rule wrappedDelegates_result [where nounsSchema = nounsSchema, OF assms(2-4)])
  have dist: "distinct (filter (\<lambda>a. a \<notin> delegate_id ` set delegates) (Map_keys store))"
    using assms(1) by (simp add: Map_wf_def Map_keys_def)
  have split: "filter (\<lambda>w. address w = A) ?result =
      map (\<lambda>d. \<lparr>address = delegate_id d, underlyingDelegate = Some d\<rparr>)
        (filter (\<lambda>d. delegate_id d = A) delegates) @
      map (\<lambda>a. \<lparr>address = a, underlyingDelegate = None\<rparr>)
        (filter (\<lambda>a. a = A)
           (filter (\<lambda>a. a \<notin> delegate_id ` set delegates) (Map_keys store)))"
    by (simp only: filter_append filter_address_remote filter_address_store)
  have st: "filter (\<lambda>a. a = A)
              (filter (\<lambda>a. a \<notin> delegate_id ` set delegates) (Map_keys store)) =
            (if A \<in> set (Map_keys store) \<and> A \<notin> delegate_id ` set delegates then [A] else [])"
    using filter_eq_distinct [OF dist, of A] by simp
  have only_store: "filter (\<lambda>w. address w = A) ?result = [\<lparr>address = A, underlyingDelegate = None\<rparr>]"
    if "A \<in> set (Map_keys store)" and "A \<notin> delegate_id ` set delegates"
  proof -
    from that(2) have "filter (\<lambda>d. delegate_id d = A) delegates = []"
      by (auto simp: filter_empty_conv)
    with that show ?thesis unfolding split st by simp
  qed
  have both: "filter (\<lambda>w. address w = A) ?result = [\<lparr>address = A, underlyingDelegate = Some d\<rparr>]"
    if "filter (\<lambda>r. delegate_id r = A) delegates = [d]" for d
  proof -
    from that have "d \<in> set (filter (\<lambda>r. delegate_id r = A) delegates)" by simp
    then have "d \<in> set delegates" and dA: "delegate_id d = A" by simp_all
    then have "A \<in> delegate_id ` set delegates" by blast
    with that dA show ?thesis unfolding split st by simp
  qed
  from r only_store both show ?thesis by blast
qed

theorem wrappedDelegates_lists_each_address_once_witness:
  "\<exists>result.
     fst (wrappedDelegates plainRequest exampleStore exampleSchema) = Inr result \<and>
     filter (\<lambda>w. address w = ''0xbb'') result = [\<lparr>address = ''0xbb'', underlyingDelegate = None\<rparr>] \<and>
     filter (\<lambda>w. address w = ''0xaa'') result =
       [\<lparr>address = ''0xaa'',
         underlyingDelegate =
           Some \<lparr>delegate_id = ''0xaa'', delegate_fields = [(''delegatedVotes'', ''7'')]\<rparr>\<rparr>]"
proof -
  let ?row = "\<lparr>delegate_id = ''0xaa'', delegate_fields = [(''delegatedVotes'', ''7'')]\<rparr>"
  have e: "errors (exampleSchema (buildFusedDelegateQuery [])) = None"
    and r: "data_delegates (exampleSchema (buildFusedDelegateQuery [])) = Some exampleRows"
    by (simp_all add: exampleSchema_def)
  have bb: "''0xbb'' \<in> set (Map_keys exampleStore) \<and> ''0xbb'' \<notin> delegate_id ` set exampleRows"
    by (simp add: Map_keys_def exampleStore_def exampleRows_def)
  have aa: "''0xaa'' \<in> set (Map_keys exampleStore) \<and>
            filter (\<lambda>r. delegate_id r = ''0xaa'') exampleRows = [?row]"
    by (simp add: Map_keys_def exampleStore_def exampleRows_def)
  from wrappedDelegates_lists_each_address_once
    [where nounsSchema = exampleSchema, OF Map_wf_exampleStore plainRequest_extract e r,
     of "''0xbb''"] bb
  obtain result1 where 1: "fst (wrappedDelegates plainRequest exampleStore exampleSchema) = Inr result1"
    "filter (\<lambda>w. address w = ''0xbb'') result1 = [\<lparr>address = ''0xbb'', underlyingDelegate = None\<rparr>]"
    by blast
  from wrappedDelegates_lists_each_address_once
    [where nounsSchema = exampleSchema, OF Map_wf_exampleStore plainRequest_extract e r,
     of "''0xaa''"] aa
  obtain result2 where 2: "fst (wrappedDelegates plainRequest exampleStore exampleSchema) = Inr result2"
    "filter (\<lambda>w. address w = ''0xaa'') result2 = [\<lparr>address = ''0xaa'', underlyingDelegate = Some ?row\<rparr>]"
    by blast
  from 1 2 show ?thesis by simp
qed

text \<open>
  C5. For every list of extra selections the fused query asks for the first 1000
  \<^verbatim>\<open>delegates\<close> ordered by \<^verbatim>\<open>delegatedVotesRaw\<close>, descending, through the fragment
  \<^verbatim>\<open>DelegateFields\<close>, which is \<^verbatim>\<open>id\<close> followed by the extra selections. Whatever
  list the extractor returned, the empty list too, the resolver sends that query to the
  remote schema, once, and what it resolves to is decided by what the remote schema
  answers to that very query: the aggregate error of the answer's errors, a
  \<^verbatim>\<open>TypeError\<close> when the answer has neither errors nor rows, and otherwise the
  answer's rows wrapped, followed by the addresses of the store that no row has.
\<close>

theorem fused_query_shape:
  "buildFusedDelegateQuery extra =
     [OperationDefinition QUERY (Some ''FusedDelegateQuery'')
        [Field (FieldNode None ''delegates''
           [(''first'', IntValue 1000),
            (''orderBy'', EnumValue ''delegatedVotesRaw''),
            (''orderDirection'', EnumValue ''desc'')]
           []
           (Some [FragmentSpread ''DelegateFields'' []]))],
      FragmentDefinition ''DelegateFields'' ''Delegate'' (identityField # extra)] \<and>
   (getSelectionSetFromDelegateField info = Inr extra \<longrightarrow>
      wrappedDelegates info store nounsSchema =
        ((case errors (nounsSchema (buildFusedDelegateQuery extra)) of
            Some es \<Rightarrow> Inl (AggregateError es (join (map message es) '', \<newline>''))
          | None \<Rightarrow>
              (case data_delegates (nounsSchema (buildFusedDelegateQuery extra)) of
                 None \<Rightarrow> Inl TypeError
               | Some delegates \<Rightarrow>
                   Inr (map (\<lambda>d. \<lparr>address = delegate_id d, underlyingDelegate = Some d\<rparr>)
                          delegates @
                        map (\<lambda>a. \<lparr>address = a, underlyingDelegate = None\<rparr>)
                          (filter (\<lambda>a. a \<notin> delegate_id ` set delegates) (Map_keys store))))),
         [buildFusedDelegateQuery extra]))"
  using buildFusedDelegateQuery_document [of extra]
    wrappedDelegates_outcome [of info extra store nounsSchema]
  by blast

theorem fused_query_shape_witness:
  "buildFusedDelegateQuery [] =
     [OperationDefinition QUERY (Some ''FusedDelegateQuery'')
        [Field (FieldNode None ''delegates''
           [(''first'', IntValue 1000),
            (''orderBy'', EnumValue ''delegatedVotesRaw''),
            (''orderDirection'', EnumValue ''desc'')]
           []
           (Some [FragmentSpread ''DelegateFields'' []]))],
      FragmentDefinition ''DelegateFields'' ''Delegate'' [identityField]] \<and>
   wrappedDelegates plainRequest exampleStore idOnlySchema =
     (Inr [\<lparr>address = ''0xdd'',
            underlyingDelegate =
              Some \<lparr>delegate_id = ''0xdd'', delegate_fields = [(''delegatedVotes'', ''12'')]\<rparr>\<rparr>,
           \<lparr>address = ''0xaa'',
            underlyingDelegate =
              Some \<lparr>delegate_id = ''0xaa'', delegate_fields = [(''delegatedVotes'', ''7'')]\<rparr>\<rparr>,
           \<lparr>address = ''0xcc'', underlyingDelegate = None\<rparr>,
           \<lparr>address = ''0xbb'', underlyingDelegate = None\<rparr>],
      [buildFusedDelegateQuery []]) \<and>
   wrappedDelegates plainRequest exampleStore failingSchema =
     (Inl (AggregateError [\<lparr>message = ''timeout''\<rparr>, \<lparr>message = ''bad gateway''\<rparr>]
             ''timeout, \<newline>bad gateway''),
      [buildFusedDelegateQuery []])"
proof -
  have ok: "idOnlySchema (buildFusedDelegateQuery []) =
              \<lparr>errors = None, data_delegates = Some exampleRows\<rparr>"
    by (simp add: idOnlySchema_def)
  have bad: "failingSchema (buildFusedDelegateQuery []) =
              \<lparr>errors = Some [\<lparr>message = ''timeout''\<rparr>, \<lparr>message = ''bad gateway''\<rparr>],
               data_delegates = Some exampleRows\<rparr>"
    by (simp add: failingSchema_def)
  from fused_query_shape [of "[]" plainRequest exampleStore idOnlySchema] plainRequest_extract
  have 1: "wrappedDelegates plainRequest exampleStore idOnlySchema =
     (Inr [\<lparr>address = ''0xdd'',
            underlyingDelegate =
              Some \<lparr>delegate_id = ''0xdd'', delegate_fields = [(''delegatedVotes'', ''12'')]\<rparr>\<rparr>,
           \<lparr>address = ''0xaa'',
            underlyingDelegate =
              Some \<lparr>delegate_id = ''0xaa'', delegate_fields = [(''delegatedVotes'', ''7'')]\<rparr>\<rparr>,
           \<lparr>address = ''0xcc'', underlyingDelegate = None\<rparr>,
           \<lparr>address = ''0xbb'', underlyingDelegate = None\<rparr>],
      [buildFusedDelegateQuery []])"
    by (simp add: ok exampleRows_def exampleStore_def Map_keys_def)
  from fused_query_shape [of "[]" plainRequest exampleStore failingSchema] plainRequest_extract
  have 2: "wrappedDelegates plainRequest exampleStore failingSchema =
     (Inl (AggregateError [\<lparr>message = ''timeout''\<rparr>, \<lparr>message = ''bad gateway''\<rparr>]
             ''timeout, \<newline>bad gateway''),
      [buildFusedDelegateQuery []])"
    by (simp add: bad)
  from fused_query_shape [of "[]" plainRequest exampleStore idOnlySchema] 1 2
  show ?thesis by blast
qed

text \<open>
  C6. When validation succeeds, the mutation returns an object that holds the address of
  the validated form and nothing else, and the store afterwards is the store before with
  the validated form set under that address: looking the returned address up gives the
  validated form, and every other address is as it was.
\<close>

theorem createNewDelegateStatement_commits:
  assumes "validateForm (statementBodyJson data) (statementBodyJsonSignature data) = Inr validated"
  shows "fst (createNewDelegateStatement validateForm data store) =
           Inr \<lparr>result_address = form_address validated\<rparr> \<and>
         snd (createNewDelegateStatement validateForm data store) =
           Map_set (form_address validated) validated store \<and>
         Map_get (snd (createNewDelegateStatement validateForm data store))
           (form_address validated) = Some validated \<and>
         (\<forall>a. a \<noteq> form_address validated \<longrightarrow>
            Map_get (snd (createNewDelegateStatement validateForm data store)) a =
            Map_get store a)"
  by (simp add: createNewDelegateStatement_valid [where validateForm = validateForm and data = data, OF assms] Map_get_Map_set)

theorem createNewDelegateStatement_commits_witness:
  "fst (createNewDelegateStatement exampleValidateForm
          \<lparr>statementBodyJson = ''Hi'', statementBodyJsonSignature = ''0xsigned''\<rparr> exampleStore) =
     Inr \<lparr>result_address = ''0xaa''\<rparr> \<and>
   Map_get (snd (createNewDelegateStatement exampleValidateForm
          \<lparr>statementBodyJson = ''Hi'', statementBodyJsonSignature = ''0xsigned''\<rparr> exampleStore))
     ''0xaa'' = Some \<lparr>form_address = ''0xaa'', form_values = exampleValues ''Hi''\<rparr>"
proof -
  let ?data = "\<lparr>statementBodyJson = ''Hi'', statementBodyJsonSignature = ''0xsigned''\<rparr>"
  let ?v = "\<lparr>form_address = ''0xaa'', form_values = exampleValues ''Hi''\<rparr>"
  have h: "exampleValidateForm (statementBodyJson ?data) (statementBodyJsonSignature ?data) = Inr ?v"
    by (simp add: exampleValidateForm_def)
  from createNewDelegateStatement_commits
    [where validateForm = exampleValidateForm and data = ?data, OF h, of exampleStore]
  show ?thesis by (simp add: Map_get_Map_set)
qed

text \<open>
  C7. When validation fails, the mutation fails with the validator's error and the store
  is the store it was.
\<close>

theorem createNewDelegateStatement_rejected:
  assumes "validateForm (statementBodyJson data) (statementBodyJsonSignature data) = Inl e"
  shows "createNewDelegateStatement validateForm data store = (Inl e, store)"
  using assms by (simp add: createNewDelegateStatement_def)

theorem createNewDelegateStatement_rejected_witness:
  "createNewDelegateStatement exampleValidateForm
     \<lparr>statementBodyJson = ''Hi'', statementBodyJsonSignature = ''0xforged''\<rparr> exampleStore =
     (Inl (ValidationError ''signature mismatch''), exampleStore)"
proof -
  let ?data = "\<lparr>statementBodyJson = ''Hi'', statementBodyJsonSignature = ''0xforged''\<rparr>"
  have h: "exampleValidateForm (statementBodyJson ?data) (statementBodyJsonSignature ?data) =
             Inl (ValidationError ''signature mismatch'')"
    by (simp add: exampleValidateForm_def)
  from createNewDelegateStatement_rejected
    [where validateForm = exampleValidateForm and data = ?data, OF h, of exampleStore]
  show ?thesis .
qed

text \<open>
  C8. After two valid submissions for one address, the store holds exactly one entry for
  that address, the second validated form; the keys are those after the first submission,
  and when the two submissions are the same the second leaves the store as the first
  left it.
\<close>

theorem createNewDelegateStatement_last_write_wins:
  assumes "Map_wf store"
      and "validateForm (statementBodyJson data1) (statementBodyJsonSignature data1) = Inr v1"
      and "validateForm (statementBodyJson data2) (statementBodyJsonSignature data2) = Inr v2"
      and "form_address v1 = form_address v2"
      and "store1 = snd (createNewDelegateStatement validateForm data1 store)"
      and "store2 = snd (createNewDelegateStatement validateForm data2 store1)"
  shows "filter (\<lambda>p. fst p = form_address v2) store2 = [(form_address v2, v2)] \<and>
         Map_get store2 (form_address v2) = Some v2 \<and>
         Map_wf store2 \<and>
         Map_keys store2 = Map_keys store1 \<and>
         (data1 = data2 \<longrightarrow> store2 = store1)"
proof -
  have s1: "store1 = Map_set (form_address v1) v1 store"
    using assms(5) by (simp add: createNewDelegateStatement_valid [where validateForm = validateForm and data = data1, OF assms(2)])
  have s2: "store2 = Map_set (form_address v2) v2 store1"
    using assms(6) by (simp add: createNewDelegateStatement_valid [where validateForm = validateForm and data = data2, OF assms(3)])
  have wf1: "Map_wf store1" unfolding s1 by (rule Map_wf_Map_set [OF assms(1)])
  have wf2: "Map_wf store2" unfolding s2 by (rule Map_wf_Map_set [OF wf1])
  have one: "filter (\<lambda>p. fst p = form_address v2) store2 = [(form_address v2, v2)]"
    unfolding s2 by (rule filter_key_Map_set [OF wf1])
  have get: "Map_get store2 (form_address v2) = Some v2"
    unfolding s2 by (simp add: Map_get_Map_set)
  have "form_address v2 \<in> set (Map_keys store1)"
    unfolding s1 using assms(4) by (simp add: Map_keys_Map_set)
  then have keys: "Map_keys store2 = Map_keys store1"
    unfolding s2 by (simp add: Map_keys_Map_set)
  have same: "store2 = store1" if "data1 = data2"
  proof -
    from that assms(2,3) have "v1 = v2" by simp
    then show ?thesis unfolding s2 s1 by (simp add: Map_set_idem)
  qed
  from one get wf2 keys same show ?thesis by blast
qed

theorem createNewDelegateStatement_last_write_wins_witness:
  "filter (\<lambda>p. fst p = ''0xaa'')
     (snd (createNewDelegateStatement exampleValidateForm
        \<lparr>statementBodyJson = ''Second'', statementBodyJsonSignature = ''0xsigned''\<rparr>
        (snd (createNewDelegateStatement exampleValidateForm
           \<lparr>statementBodyJson = ''First'', statementBodyJsonSignature = ''0xsigned''\<rparr>
           exampleStore)))) =
     [(''0xaa'', \<lparr>form_address = ''0xaa'', form_values = exampleValues ''Second''\<rparr>)] \<and>
   snd (createNewDelegateStatement exampleValidateForm
        \<lparr>statementBodyJson = ''First'', statementBodyJsonSignature = ''0xsigned''\<rparr>
        (snd (createNewDelegateStatement exampleValidateForm
           \<lparr>statementBodyJson = ''First'', statementBodyJsonSignature = ''0xsigned''\<rparr>
           exampleStore))) =
   snd (createNewDelegateStatement exampleValidateForm
           \<lparr>statementBodyJson = ''First'', statementBodyJsonSignature = ''0xsigned''\<rparr>
           exampleStore)"
proof -
  let ?d1 = "\<lparr>statementBodyJson = ''First'', statementBodyJsonSignature = ''0xsigned''\<rparr>"
  let ?d2 = "\<lparr>statementBodyJson = ''Second'', statementBodyJsonSignature = ''0xsigned''\<rparr>"
  let ?v1 = "\<lparr>form_address = ''0xaa'', form_values = exampleValues ''First''\<rparr>"
  let ?v2 = "\<lparr>form_address = ''0xaa'', form_values = exampleValues ''Second''\<rparr>"
  have h1: "exampleValidateForm (statementBodyJson ?d1) (statementBodyJsonSignature ?d1) = Inr ?v1"
    by (simp add: exampleValidateForm_def)
  have h2: "exampleValidateForm (statementBodyJson ?d2) (statementBodyJsonSignature ?d2) = Inr ?v2"
    by (simp add: exampleValidateForm_def)
  have a12: "form_address ?v1 = form_address ?v2" and a11: "form_address ?v1 = form_address ?v1"
    by simp_all
  from createNewDelegateStatement_last_write_wins
    [where validateForm = exampleValidateForm and ?data1.0 = ?d1 and ?data2.0 = ?d2,
     OF Map_wf_exampleStore h1 h2 a12 refl refl]
  have A: "filter (\<lambda>p. fst p = ''0xaa'')
     (snd (createNewDelegateStatement exampleValidateForm ?d2
        (snd (createNewDelegateStatement exampleValidateForm ?d1 exampleStore)))) =
     [(''0xaa'', ?v2)]" by simp
  from createNewDelegateStatement_last_write_wins
    [where validateForm = exampleValidateForm and ?data1.0 = ?d1 and ?data2.0 = ?d1,
     OF Map_wf_exampleStore h1 h1 a11 refl refl]
  have B: "snd (createNewDelegateStatement exampleValidateForm ?d1
        (snd (createNewDelegateStatement exampleValidateForm ?d1 exampleStore))) =
      snd (createNewDelegateStatement exampleValidateForm ?d1 exampleStore)" by simp
  from A B show ?thesis by simp
qed

text \<open>
  C9. The resolver of \<^verbatim>\<open>WrappedDelegate.delegate\<close> returns the underlying delegate when
  the parent has one, without calling the remote schema; when it has none, it returns
  what the delegation of the query field \<^verbatim>\<open>delegate\<close> with the parent's address as
  \<^verbatim>\<open>id\<close> returns.
\<close>

theorem delegate_resolver_falls_back:
  "(underlyingDelegate parent = Some d \<longrightarrow>
      WrappedDelegate_delegate delegateToSchema parent info = Inr (Some d)) \<and>
   (underlyingDelegate parent = None \<longrightarrow>
      WrappedDelegate_delegate delegateToSchema parent info =
        delegateToSchema
          \<lparr>request_operation = QUERY, request_fieldName = ''delegate'',
           request_args = [(''id'', address parent)], request_info = info\<rparr>)"
  by (simp add: WrappedDelegate_delegate_def)

theorem delegate_resolver_falls_back_witness:
  "WrappedDelegate_delegate exampleDelegateToSchema
     \<lparr>address = ''0xaa'',
      underlyingDelegate = Some \<lparr>delegate_id = ''0xaa'', delegate_fields = []\<rparr>\<rparr> plainRequest =
     Inr (Some \<lparr>delegate_id = ''0xaa'', delegate_fields = []\<rparr>) \<and>
   WrappedDelegate_delegate exampleDelegateToSchema
     \<lparr>address = ''0xdd'', underlyingDelegate = None\<rparr> plainRequest =
     Inr (Some \<lparr>delegate_id = ''0xdd'', delegate_fields = [(''delegatedVotes'', ''12'')]\<rparr>) \<and>
   WrappedDelegate_delegate exampleDelegateToSchema
     \<lparr>address = ''0xbb'', underlyingDelegate = None\<rparr> plainRequest = Inr None"
  using delegate_resolver_falls_back
      [of "\<lparr>address = ''0xaa'',
             underlyingDelegate = Some \<lparr>delegate_id = ''0xaa'', delegate_fields = []\<rparr>\<rparr>"
          "\<lparr>delegate_id = ''0xaa'', delegate_fields = []\<rparr>" exampleDelegateToSchema plainRequest]
    delegate_resolver_falls_back
      [of "\<lparr>address = ''0xdd'', underlyingDelegate = None\<rparr>" _ exampleDelegateToSchema plainRequest]
    delegate_resolver_falls_back
      [of "\<lparr>address = ''0xbb'', underlyingDelegate = None\<rparr>" _ exampleDelegateToSchema plainRequest]
  by (simp add: exampleDelegateToSchema_def exampleRows_def)

text \<open>
  C10. When the fused query succeeds, the result is the remote rows wrapped, in the order
  the remote schema returned them, followed by the addresses of the store that no remote
  row has, in the order of the store's keys.
\<close>

theorem wrappedDelegates_order:
  assumes "getSelectionSetFromDelegateField info = Inr extra"
      and "errors (nounsSchema (buildFusedDelegateQuery extra)) = None"
      and "data_delegates (nounsSchema (buildFusedDelegateQuery extra)) = Some delegates"
  shows "fst (wrappedDelegates info store nounsSchema) =
           Inr (map (\<lambda>d. \<lparr>address = delegate_id d, underlyingDelegate = Some d\<rparr>) delegates @
                map (\<lambda>a. \<lparr>address = a, underlyingDelegate = None\<rparr>)
                  (filter (\<lambda>a. a \<notin> delegate_id ` set delegates) (Map_keys store)))"
  by (rule wrappedDelegates_result [where nounsSchema = nounsSchema, OF assms])

theorem wrappedDelegates_order_witness:
  "fst (wrappedDelegates plainRequest exampleStore exampleSchema) =
     Inr [\<lparr>address = ''0xdd'',
           underlyingDelegate =
             Some \<lparr>delegate_id = ''0xdd'', delegate_fields = [(''delegatedVotes'', ''12'')]\<rparr>\<rparr>,
          \<lparr>address = ''0xaa'',
           underlyingDelegate =
             Some \<lparr>delegate_id = ''0xaa'', delegate_fields = [(''delegatedVotes'', ''7'')]\<rparr>\<rparr>,
          \<lparr>address = ''0xcc'', underlyingDelegate = None\<rparr>,
          \<lparr>address = ''0xbb'', underlyingDelegate = None\<rparr>]"
proof -
  have e: "errors (exampleSchema (buildFusedDelegateQuery [])) = None"
    and r: "data_delegates (exampleSchema (buildFusedDelegateQuery [])) = Some exampleRows"
    by (simp_all add: exampleSchema_def)
  from wrappedDelegates_order
    [where nounsSchema = exampleSchema, OF plainRequest_extract e r, of exampleStore]
  show ?thesis by (simp add: exampleRows_def exampleStore_def Map_keys_def)
qed

end
